theory Spec2Isabelle
  imports Main
begin

section \<open>Data model of the admin forms\<close>

text \<open>
  The two entity forms of the admin front end (the project form and the video form) are
  embedded here. A JavaScript string is a \<open>string\<close>; its \<open>length\<close> stands for the
  number of code units that \<open>z.string().min(n)\<close> counts. A value that may be
  \<open>undefined\<close> (or \<open>null\<close>) is an \<open>option\<close>.
\<close>

datatype mode = Create | Edit

datatype status = PUBLISHED | UNPUBLISHED

datatype platform = Pwebsite | Ptwitter | Pgithub | Pdiscord | Ptelegram

text \<open>\<open>includeSocialLinks\<close> and \<open>socialLinks\<close> of the form data, one entry per platform.\<close>

record includeFlags =
  inc_website :: bool
  inc_twitter :: bool
  inc_github :: bool
  inc_discord :: bool
  inc_telegram :: bool

record socialUrls =
  soc_website :: "string option"
  soc_twitter :: "string option"
  soc_github :: "string option"
  soc_discord :: "string option"
  soc_telegram :: "string option"

text \<open>\<open>ProjectFormData = z.infer<typeof projectSchema>\<close>.\<close>

record ProjectFormData =
  name :: string
  tagline :: string
  description :: string
  categories :: "string list"
  website :: "string option"
  isHiring :: bool
  careerPageUrl :: "string option"
  isOpenForBounty :: bool
  bountySubmissionUrl :: "string option"
  isOpenSource :: bool
  githubUrl :: "string option"
  includeSocialLinks :: includeFlags
  socialLinks :: socialUrls
  featured :: bool
  status :: status

section \<open>The project schema\<close>

text \<open>
  \<open>z.string().url(msg).optional().or(z.literal(""))\<close>: the value passes when it is
  \<open>undefined\<close>, when the URL check of the validation library accepts it, or when it is
  the empty string. The URL check itself belongs to the library and is the parameter
  \<open>isUrl\<close>.
\<close>

definition optionalUrl :: "(string \<Rightarrow> bool) \<Rightarrow> string option \<Rightarrow> bool" where
  "optionalUrl isUrl v = (case v of None \<Rightarrow> True | Some s \<Rightarrow> isUrl s \<or> s = [])"

text \<open>The fields of the schema that carry a check; an issue names the field that failed.\<close>

datatype path =
    Name | Tagline | Description | Categories | Website
  | CareerPageUrl | BountySubmissionUrl | GithubUrl
  | SocialLink platform

definition check :: "bool \<Rightarrow> path \<Rightarrow> path list" where
  "check ok f = (if ok then [] else [f])"

text \<open>
  The issues of \<open>projectSchema\<close> on a draft, in the order of the schema's keys. The
  boolean keys and \<open>status\<close> are typed in the record and raise no issue.
\<close>

definition projectSchema :: "(string \<Rightarrow> bool) \<Rightarrow> ProjectFormData \<Rightarrow> path list" where
  "projectSchema isUrl d =
     check (1 \<le> length (name d)) Name
   @ check (1 \<le> length (tagline d)) Tagline
   @ check (10 \<le> length (description d)) Description
   @ check (1 \<le> length (categories d)) Categories
   @ check (optionalUrl isUrl (website d)) Website
   @ check (optionalUrl isUrl (careerPageUrl d)) CareerPageUrl
   @ check (optionalUrl isUrl (bountySubmissionUrl d)) BountySubmissionUrl
   @ check (optionalUrl isUrl (githubUrl d)) GithubUrl
   @ check (optionalUrl isUrl (soc_website (socialLinks d))) (SocialLink Pwebsite)
   @ check (optionalUrl isUrl (soc_twitter (socialLinks d))) (SocialLink Ptwitter)
   @ check (optionalUrl isUrl (soc_github (socialLinks d))) (SocialLink Pgithub)
   @ check (optionalUrl isUrl (soc_discord (socialLinks d))) (SocialLink Pdiscord)
   @ check (optionalUrl isUrl (soc_telegram (socialLinks d))) (SocialLink Ptelegram)"

text \<open>The resolver lets the submit handler run exactly when the schema raises no issue.\<close>

definition Validate :: "(string \<Rightarrow> bool) \<Rightarrow> ProjectFormData \<Rightarrow> bool" where
  "Validate isUrl d = (projectSchema isUrl d = [])"

text \<open>
  A concrete instance of the parameter \<open>isUrl\<close> for closed instances of the theorems:
  it accepts the strings that begin with \<open>https://\<close> and go on. The theorems themselves
  hold for every \<open>isUrl\<close>.
\<close>

definition httpsUrl :: "string \<Rightarrow> bool" where
  "httpsUrl s = (take 8 s = ''https://'' \<and> 8 < length s)"

section \<open>State of the project form\<close>

datatype localFile = File string

text \<open>The \<open>Project\<close> record of the backend, with the fields the form reads.\<close>

record projectSocial =
  ps_website :: "string option"
  ps_twitter :: "string option"
  ps_github :: "string option"
  ps_discord :: "string option"
  ps_telegram :: "string option"

record Project =
  project_id :: string
  project_name :: string
  project_tagline :: string
  project_description :: string
  project_categories :: "string list"
  project_logo :: "string option"
  project_heroImage :: "string option"
  project_images :: "string list option"
  project_isHiring :: bool
  project_careerPageUrl :: "string option"
  project_isOpenForBounty :: bool
  project_bountySubmissionUrl :: "string option"
  project_isOpenSource :: bool
  project_githubUrl :: "string option"
  project_featured :: bool
  project_status :: status
  project_socialLinks :: "projectSocial option"

text \<open>JavaScript's \<open>!!v\<close> and \<open>v || ""\<close> on a string that may be missing.\<close>

definition truthy :: "string option \<Rightarrow> bool" where
  "truthy v = (case v of None \<Rightarrow> False | Some s \<Rightarrow> s \<noteq> [])"

definition orEmpty :: "string option \<Rightarrow> string" where
  "orEmpty v = (case v of None \<Rightarrow> [] | Some s \<Rightarrow> s)"

text \<open>
  The three flag selects are registered with
  \<open>setValueAs: (value) => value === "true"\<close>, which turns the option strings of the
  select into booleans. The form library stores, for a registered field, the result of
  the field's \<open>setValueAs\<close> on the value it is given, also when the value comes from a
  call of \<open>setValue\<close>. The value given is a boolean in \<open>fetchProject\<close> and a string
  when the select changes; strict equality with the string \<open>"true"\<close> holds for that
  string only.
\<close>

datatype jsValue = JsBool bool | JsString string

definition flagSetValueAs :: "jsValue \<Rightarrow> bool" where
  "flagSetValueAs v = (v = JsString ''true'')"


section \<open>Payloads, the remote API and the observable trace\<close>

text \<open>The object \<open>projectData\<close> that the project form sends. A key whose value is
  \<open>undefined\<close> is \<open>None\<close>; \<open>socialLinks\<close> is the object built by
  \<open>Object.fromEntries\<close>, as its list of entries.\<close>

record projectData =
  pd_name :: string
  pd_tagline :: string
  pd_description :: string
  pd_categories :: "string list"
  pd_featured :: bool
  pd_status :: status
  pd_isHiring :: bool
  pd_careerPageUrl :: "string option"
  pd_isOpenForBounty :: bool
  pd_bountySubmissionUrl :: "string option"
  pd_isOpenSource :: bool
  pd_githubUrl :: "string option"
  pd_logo :: "string option"
  pd_heroImage :: "string option"
  pd_projectImages :: "string list option"
  pd_socialLinks :: "(platform \<times> string) list"

text \<open>\<open>VideoFormData = z.infer<typeof videoSchema>\<close>; the video payload has the same shape.\<close>

record VideoFormData =
  title :: string
  video_description :: "string option"
  playbackId :: string
  thumbnail :: "string option"
  video_featured :: bool
  projectId :: string

record featuredCounts =
  count_projects :: int
  count_videos :: int

record uploadResult =
  url :: string

datatype err = Err string

text \<open>
  \<open>apiService\<close> is an external collaborator. Each method is the answer it gives to a
  call: \<open>Inl\<close> when the awaited promise rejects, \<open>Inr\<close> with the resolved value
  otherwise.
\<close>

record api =
  getFeaturedCounts :: "err + featuredCounts"
  getProject :: "string \<Rightarrow> err + Project"
  createProjectFolders :: "string \<Rightarrow> err + unit"
  uploadFile :: "localFile \<Rightarrow> string \<Rightarrow> string \<Rightarrow> err + uploadResult"
  uploadMultipleFiles :: "localFile list \<Rightarrow> string \<Rightarrow> string \<Rightarrow> err + uploadResult list"
  createProject :: "projectData \<Rightarrow> err + unit"
  updateProject :: "string \<Rightarrow> projectData \<Rightarrow> err + unit"
  createVideoFolder :: "string \<Rightarrow> string \<Rightarrow> err + unit"
  uploadVideoThumbnail :: "localFile \<Rightarrow> string \<Rightarrow> string \<Rightarrow> err + uploadResult"
  createVideo :: "VideoFormData \<Rightarrow> err + unit"
  updateVideo :: "string \<Rightarrow> VideoFormData \<Rightarrow> err + unit"

text \<open>What a form does to the outside: API calls issued, notifications, navigation, log.\<close>

datatype event =
    GetFeaturedCounts
  | GetProject string
  | CreateProjectFolders string
  | UploadFile localFile string string
  | UploadMultipleFiles "localFile list" string string
  | CreateProject projectData
  | UpdateProject string projectData
  | CreateVideoFolder string string
  | UploadVideoThumbnail localFile string string
  | CreateVideo VideoFormData
  | UpdateVideo string VideoFormData
  | ToastError string
  | ToastSuccess string
  | Navigate string
  | ConsoleError string

text \<open>The part of a form's state that both forms share: the loading flag and the trace.\<close>

record ui =
  loading :: bool
  trace :: "event list"

definition emit :: "event \<Rightarrow> 'z ui_scheme \<Rightarrow> 'z ui_scheme" where
  "emit e s = s\<lparr>trace := trace s @ [e]\<rparr>"

definition setLoading :: "bool \<Rightarrow> 'z ui_scheme \<Rightarrow> 'z ui_scheme" where
  "setLoading b s = s\<lparr>loading := b\<rparr>"

text \<open>
  An \<open>async\<close> function body: it runs on the state and either throws (\<open>Inl\<close>) or returns.
  \<open>andThen\<close> is sequencing, where a throw skips what follows; \<open>await\<close> issues a call,
  records it and continues with its answer.
\<close>

type_synonym ('a, 's) async = "'s \<Rightarrow> (err + 'a) \<times> 's"

definition resolve :: "'a \<Rightarrow> ('a, 's) async" where
  "resolve v s = (Inr v, s)"

definition throw :: "err \<Rightarrow> ('a, 's) async" where
  "throw e s = (Inl e, s)"

definition andThen :: "('a, 's) async \<Rightarrow> ('a \<Rightarrow> ('b, 's) async) \<Rightarrow> ('b, 's) async" where
  "andThen m f s = (case m s of (Inl e, s') \<Rightarrow> (Inl e, s') | (Inr v, s') \<Rightarrow> f v s')"

definition await :: "event \<Rightarrow> err + 'a \<Rightarrow> ('a, 'z ui_scheme) async" where
  "await ev r s = (r, emit ev s)"

definition perform :: "('s \<Rightarrow> 's) \<Rightarrow> (unit, 's) async" where
  "perform f s = (Inr (), f s)"

subsection \<open>The featured cap check of both submit handlers\<close>

text \<open>
  The block \<open>if (data.featured) { try { ... } catch {} }\<close> at the head of both
  \<open>onSubmit\<close> handlers; the two copies differ in the count they read
  (\<open>counts.projects\<close>, \<open>counts.videos\<close>) and in the message. The result says whether
  the handler goes on: the inner \<open>catch {}\<close> turns a failed count query into going on,
  and each of the two cap branches notifies, lowers the loading flag and returns from
  the handler.
\<close>

definition featuredCheck ::
  "api \<Rightarrow> mode \<Rightarrow> bool \<Rightarrow> (featuredCounts \<Rightarrow> int) \<Rightarrow> string \<Rightarrow> (bool, 'z ui_scheme) async" where
  "featuredCheck env m isFeatured count msg =
     (if isFeatured
      then (\<lambda>s. case await GetFeaturedCounts (getFeaturedCounts env) s of
                   (Inl e, s') \<Rightarrow> (Inr True, s')
                 | (Inr counts, s') \<Rightarrow>
                     if 3 \<le> count counts \<and> m = Create
                     then (Inr False, setLoading False (emit (ToastError msg) s'))
                     else if 3 \<le> count counts \<and> m = Edit
                     then (Inr False, setLoading False (emit (ToastError msg) s'))
                     else (Inr True, s'))
      else resolve True)"


section \<open>The project form\<close>

text \<open>The component state of \<open>ProjectForm\<close>: the \<open>useState\<close> cells and the form values.\<close>

record projectForm = ui +
  formValues :: ProjectFormData
  selectedCategories :: "string list"
  logoFile :: "localFile option"
  heroImageFile :: "localFile option"
  projectImageFiles :: "localFile list"
  logoPreview :: string
  heroImagePreview :: string
  projectImagePreviews :: "string list"
  socialLinksSelection :: includeFlags

subsection \<open>\<open>toggleCategory\<close>\<close>

definition toggleCategory :: "string \<Rightarrow> projectForm \<Rightarrow> projectForm" where
  "toggleCategory categoryName s =
     (let updatedCategories =
            (if categoryName \<in> set (selectedCategories s)
             then filter (\<lambda>cat. cat \<noteq> categoryName) (selectedCategories s)
             else selectedCategories s @ [categoryName])
      in s\<lparr>selectedCategories := updatedCategories,
            formValues := (formValues s)\<lparr>categories := updatedCategories\<rparr>\<rparr>)"

subsection \<open>\<open>fetchProject\<close> (load for edit)\<close>

text \<open>
  The \<open>setValue\<close> and \<open>set...\<close> calls of \<open>fetchProject\<close> for a fetched project.
  The flag selects are registered when the effect runs, so each flag is stored through
  \<open>flagSetValueAs\<close>; the other fields set here have no \<open>setValueAs\<close>, and the URL
  inputs of the three pairs are not rendered yet.
\<close>

definition populate :: "Project \<Rightarrow> projectForm \<Rightarrow> projectForm" where
  "populate project s =
     (let social = (case project_socialLinks project of
                      None \<Rightarrow> \<lparr>ps_website = None, ps_twitter = None, ps_github = None,
                                ps_discord = None, ps_telegram = None\<rparr>
                    | Some l \<Rightarrow> l);
          include = \<lparr>inc_website = truthy (ps_website social),
                     inc_twitter = truthy (ps_twitter social),
                     inc_github = truthy (ps_github social),
                     inc_discord = truthy (ps_discord social),
                     inc_telegram = truthy (ps_telegram social)\<rparr>
      in s\<lparr>formValues := (formValues s)
              \<lparr>name := project_name project,
               tagline := project_tagline project,
               description := project_description project,
               categories := project_categories project,
               featured := project_featured project,
               status := project_status project,
               isHiring :=
                 flagSetValueAs (JsBool (project_isHiring project \<or> truthy (project_careerPageUrl project))),
               careerPageUrl := Some (orEmpty (project_careerPageUrl project)),
               isOpenForBounty :=
                 flagSetValueAs
                   (JsBool (project_isOpenForBounty project \<or> truthy (project_bountySubmissionUrl project))),
               bountySubmissionUrl := Some (orEmpty (project_bountySubmissionUrl project)),
               isOpenSource :=
                 flagSetValueAs (JsBool (project_isOpenSource project \<or> truthy (project_githubUrl project))),
               githubUrl := Some (orEmpty (project_githubUrl project)),
               includeSocialLinks := include,
               socialLinks := \<lparr>soc_website = Some (orEmpty (ps_website social)),
                               soc_twitter = Some (orEmpty (ps_twitter social)),
                               soc_github = Some (orEmpty (ps_github social)),
                               soc_discord = Some (orEmpty (ps_discord social)),
                               soc_telegram = Some (orEmpty (ps_telegram social))\<rparr>\<rparr>,
            logoPreview := orEmpty (project_logo project),
            heroImagePreview := orEmpty (project_heroImage project),
            projectImagePreviews :=
              (case project_images project of None \<Rightarrow> projectImagePreviews s | Some l \<Rightarrow> l),
            selectedCategories := project_categories project,
            socialLinksSelection := include\<rparr>)"

text \<open>
  \<open>fetchProject\<close>: nothing without an id; otherwise the loading flag is raised, the
  project is fetched and the form populated; a failed fetch is logged; the loading flag
  is lowered in every case. The id is the route parameter, which may be missing.
\<close>

definition fetchProject :: "api \<Rightarrow> string option \<Rightarrow> projectForm \<Rightarrow> projectForm" where
  "fetchProject env eid s =
     (case eid of
        None \<Rightarrow> s
      | Some i \<Rightarrow>
          if i = [] then s
          else
            (case andThen (perform (setLoading True)) (\<lambda>_.
                  andThen (await (GetProject i) (getProject env i)) (\<lambda>project.
                  perform (populate project))) s of
               (Inl e, s') \<Rightarrow> setLoading False (emit (ConsoleError ''Failed to fetch project:'') s')
             | (Inr _, s') \<Rightarrow> setLoading False s'))"


subsection \<open>\<open>uploadFiles\<close>\<close>

record uploads =
  up_logo :: "string option"
  up_heroImage :: "string option"
  up_projectImages :: "string list option"

definition uploadFiles :: "api \<Rightarrow> string \<Rightarrow> (uploads, projectForm) async" where
  "uploadFiles env projectName s =
     andThen (await (CreateProjectFolders projectName) (createProjectFolders env projectName)) (\<lambda>_.
     andThen (case logoFile s of
                None \<Rightarrow> resolve None
              | Some f \<Rightarrow>
                  andThen (await (UploadFile f ''logo'' projectName)
                                 (uploadFile env f ''logo'' projectName))
                          (\<lambda>result. resolve (Some (url result)))) (\<lambda>logo.
     andThen (case heroImageFile s of
                None \<Rightarrow> resolve None
              | Some f \<Rightarrow>
                  andThen (await (UploadFile f ''project-hero-image'' projectName)
                                 (uploadFile env f ''project-hero-image'' projectName))
                          (\<lambda>result. resolve (Some (url result)))) (\<lambda>heroImage.
     andThen (if 0 < length (projectImageFiles s)
              then andThen (await (UploadMultipleFiles (projectImageFiles s) ''project-image'' projectName)
                                  (uploadMultipleFiles env (projectImageFiles s) ''project-image'' projectName))
                           (\<lambda>results. resolve (Some (map url results)))
              else resolve None) (\<lambda>projectImages.
     resolve \<lparr>up_logo = logo, up_heroImage = heroImage, up_projectImages = projectImages\<rparr>)))) s"

subsection \<open>\<open>onSubmit\<close> of the project form\<close>

text \<open>The entries of \<open>data.socialLinks\<close> kept by the filter
  \<open>includeSocialLinks[key] && value\<close>.\<close>

definition socialEntries :: "ProjectFormData \<Rightarrow> (platform \<times> string) list" where
  "socialEntries d =
     map (\<lambda>(k, inc, v). (k, orEmpty v))
       (filter (\<lambda>(k, inc, v). inc \<and> truthy v)
          [(Pwebsite, inc_website (includeSocialLinks d), soc_website (socialLinks d)),
           (Ptwitter, inc_twitter (includeSocialLinks d), soc_twitter (socialLinks d)),
           (Pgithub, inc_github (includeSocialLinks d), soc_github (socialLinks d)),
           (Pdiscord, inc_discord (includeSocialLinks d), soc_discord (socialLinks d)),
           (Ptelegram, inc_telegram (includeSocialLinks d), soc_telegram (socialLinks d))])"

definition mkProjectData :: "ProjectFormData \<Rightarrow> uploads \<Rightarrow> projectData" where
  "mkProjectData d u =
     \<lparr>pd_name = name d,
      pd_tagline = tagline d,
      pd_description = description d,
      pd_categories = categories d,
      pd_featured = featured d,
      pd_status = status d,
      pd_isHiring = isHiring d,
      pd_careerPageUrl = (if isHiring d then careerPageUrl d else None),
      pd_isOpenForBounty = isOpenForBounty d,
      pd_bountySubmissionUrl = (if isOpenForBounty d then bountySubmissionUrl d else None),
      pd_isOpenSource = isOpenSource d,
      pd_githubUrl = (if isOpenSource d then githubUrl d else None),
      pd_logo = up_logo u,
      pd_heroImage = up_heroImage u,
      pd_projectImages = up_projectImages u,
      pd_socialLinks = socialEntries d\<rparr>"

definition projectCapMessage :: string where
  "projectCapMessage =
     ''Only 3 featured projects are allowed. Please unfeature an existing project first.''"

text \<open>The block \<open>if (mode === "create") ... else if (id) ...\<close> that sends the payload.\<close>

definition saveProject :: "api \<Rightarrow> mode \<Rightarrow> string option \<Rightarrow> projectData \<Rightarrow> (unit, projectForm) async" where
  "saveProject env m eid pd =
     (case m of
        Create \<Rightarrow>
          andThen (await (CreateProject pd) (createProject env pd))
            (\<lambda>_. perform (emit (ToastSuccess ''Project created successfully'')))
      | Edit \<Rightarrow>
          if truthy eid
          then andThen (await (UpdateProject (orEmpty eid) pd) (updateProject env (orEmpty eid) pd))
                 (\<lambda>_. perform (emit (ToastSuccess ''Project updated successfully'')))
          else resolve ())"

text \<open>The \<open>try\<close> block of \<open>onSubmit\<close>; \<open>eid\<close> is the route parameter \<open>id\<close>.\<close>

definition onSubmit_try :: "api \<Rightarrow> mode \<Rightarrow> string option \<Rightarrow> ProjectFormData \<Rightarrow> (unit, projectForm) async" where
  "onSubmit_try env m eid d =
     andThen (perform (setLoading True)) (\<lambda>_.
     andThen (featuredCheck env m (featured d) count_projects projectCapMessage) (\<lambda>goOn.
     if \<not> goOn then resolve ()
     else
       andThen (uploadFiles env (name d)) (\<lambda>u.
       andThen (saveProject env m eid (mkProjectData d u)) (\<lambda>_.
       perform (emit (Navigate ''/projects''))))))"

text \<open>\<open>onSubmit\<close>: the \<open>try\<close> block, the \<open>catch\<close> that logs, the \<open>finally\<close> that lowers
  the loading flag.\<close>

definition onSubmit :: "api \<Rightarrow> mode \<Rightarrow> string option \<Rightarrow> ProjectFormData \<Rightarrow> projectForm \<Rightarrow> projectForm" where
  "onSubmit env m eid d s =
     (case onSubmit_try env m eid d s of
        (Inl e, s') \<Rightarrow> setLoading False (emit (ConsoleError ''Failed to save project:'') s')
      | (Inr _, s') \<Rightarrow> setLoading False s')"

section \<open>The video form\<close>

record videoForm = ui +
  projects :: "Project list"
  thumbnailFile :: "localFile option"
  thumbnailPreview :: string

definition uploadThumbnail :: "api \<Rightarrow> string \<Rightarrow> string \<Rightarrow> (string option, videoForm) async" where
  "uploadThumbnail env projectName pid s =
     (case thumbnailFile s of
        Some f \<Rightarrow>
          andThen (await (CreateVideoFolder projectName pid) (createVideoFolder env projectName pid)) (\<lambda>_.
          andThen (await (UploadVideoThumbnail f projectName pid)
                         (uploadVideoThumbnail env f projectName pid)) (\<lambda>result.
          resolve (Some (url result)))) s
      | None \<Rightarrow> resolve None s)"

definition videoCapMessage :: string where
  "videoCapMessage =
     ''Only 3 featured videos are allowed. Please unfeature an existing video first.''"

definition saveVideo :: "api \<Rightarrow> mode \<Rightarrow> string option \<Rightarrow> VideoFormData \<Rightarrow> (unit, videoForm) async" where
  "saveVideo env m eid videoData =
     (case m of
        Create \<Rightarrow>
          andThen (await (CreateVideo videoData) (createVideo env videoData))
            (\<lambda>_. perform (emit (ToastSuccess ''Video created successfully'')))
      | Edit \<Rightarrow>
          if truthy eid
          then andThen (await (UpdateVideo (orEmpty eid) videoData) (updateVideo env (orEmpty eid) videoData))
                 (\<lambda>_. perform (emit (ToastSuccess ''Video updated successfully'')))
          else resolve ())"

definition mkVideoData :: "VideoFormData \<Rightarrow> string option \<Rightarrow> VideoFormData" where
  "mkVideoData d thumbnailUrl =
     d\<lparr>thumbnail := (if truthy thumbnailUrl then thumbnailUrl else thumbnail d)\<rparr>"

definition video_onSubmit_try :: "api \<Rightarrow> mode \<Rightarrow> string option \<Rightarrow> VideoFormData \<Rightarrow> (unit, videoForm) async" where
  "video_onSubmit_try env m eid d =
     andThen (perform (setLoading True)) (\<lambda>_.
     andThen (featuredCheck env m (video_featured d) count_videos videoCapMessage) (\<lambda>goOn.
     if \<not> goOn then resolve ()
     else (\<lambda>s.
       (case find (\<lambda>p. project_id p = projectId d) (projects s) of
          None \<Rightarrow> throw (Err ''Selected project not found'')
        | Some selectedProject \<Rightarrow>
            andThen (uploadThumbnail env (project_name selectedProject) (playbackId d)) (\<lambda>thumbnailUrl.
            andThen (saveVideo env m eid (mkVideoData d thumbnailUrl)) (\<lambda>_.
            perform (emit (Navigate ''/videos''))))) s)))"

definition video_onSubmit :: "api \<Rightarrow> mode \<Rightarrow> string option \<Rightarrow> VideoFormData \<Rightarrow> videoForm \<Rightarrow> videoForm" where
  "video_onSubmit env m eid d s =
     (case video_onSubmit_try env m eid d s of
        (Inl e, s') \<Rightarrow> setLoading False (emit (ConsoleError ''Failed to save video:'') s')
      | (Inr _, s') \<Rightarrow> setLoading False s')"


section \<open>Observing a run\<close>

text \<open>The events a handler added to the trace, between the state before and after.\<close>

definition emitted :: "'z ui_scheme \<Rightarrow> 'z ui_scheme \<Rightarrow> event list" where
  "emitted s s' = drop (length (trace s)) (trace s')"

fun isUpload :: "event \<Rightarrow> bool" where
  "isUpload (UploadFile f t n) = True"
| "isUpload (UploadMultipleFiles fs t n) = True"
| "isUpload (UploadVideoThumbnail f n p) = True"
| "isUpload _ = False"

text \<open>The create and update calls.\<close>

fun isSave :: "event \<Rightarrow> bool" where
  "isSave (CreateProject pd) = True"
| "isSave (UpdateProject i pd) = True"
| "isSave (CreateVideo v) = True"
| "isSave (UpdateVideo i v) = True"
| "isSave _ = False"

definition fulfilled :: "err + 'a \<Rightarrow> bool" where
  "fulfilled r = (case r of Inl e \<Rightarrow> False | Inr v \<Rightarrow> True)"

text \<open>Whether the backend answered a recorded call without throwing; the events that
  are not calls count as answered.\<close>

fun answered :: "api \<Rightarrow> event \<Rightarrow> bool" where
  "answered env GetFeaturedCounts = fulfilled (getFeaturedCounts env)"
| "answered env (GetProject i) = fulfilled (getProject env i)"
| "answered env (CreateProjectFolders n) = fulfilled (createProjectFolders env n)"
| "answered env (UploadFile f t n) = fulfilled (uploadFile env f t n)"
| "answered env (UploadMultipleFiles fs t n) = fulfilled (uploadMultipleFiles env fs t n)"
| "answered env (CreateProject pd) = fulfilled (createProject env pd)"
| "answered env (UpdateProject i pd) = fulfilled (updateProject env i pd)"
| "answered env (CreateVideoFolder n p) = fulfilled (createVideoFolder env n p)"
| "answered env (UploadVideoThumbnail f n p) = fulfilled (uploadVideoThumbnail env f n p)"
| "answered env (CreateVideo v) = fulfilled (createVideo env v)"
| "answered env (UpdateVideo i v) = fulfilled (updateVideo env i v)"
| "answered env _ = True"

text \<open>
  A scan of a trace: every upload call met so far came after the folder call \<open>F\<close>
  (\<open>seen\<close> says whether \<open>F\<close> was already met).
\<close>

fun guardedBy :: "event \<Rightarrow> bool \<Rightarrow> event list \<Rightarrow> bool" where
  "guardedBy F seen [] = True"
| "guardedBy F seen (e # es) =
     (if isUpload e then seen \<and> guardedBy F seen es else guardedBy F (seen \<or> e = F) es)"

section \<open>Concrete instances\<close>

text \<open>
  The draft of the specification's scenario, on top of the form's \<open>defaultValues\<close>
  (no social link included, every social URL empty); the URL inputs that were never
  rendered are \<open>undefined\<close>.
\<close>

definition scenarioDraft :: ProjectFormData where
  "scenarioDraft =
     \<lparr>name = ''Foo'', tagline = ''bar'', description = ''a sufficiently long description'',
      categories = [''DeFi''], website = None,
      isHiring = False, careerPageUrl = None,
      isOpenForBounty = False, bountySubmissionUrl = None,
      isOpenSource = False, githubUrl = None,
      includeSocialLinks = \<lparr>inc_website = False, inc_twitter = False, inc_github = False,
                             inc_discord = False, inc_telegram = False\<rparr>,
      socialLinks = \<lparr>soc_website = Some [], soc_twitter = Some [], soc_github = Some [],
                      soc_discord = Some [], soc_telegram = Some []\<rparr>,
      featured = False, status = UNPUBLISHED\<rparr>"

text \<open>The same draft after the hiring select was switched to Yes and its URL left empty.\<close>

definition hiringNoUrl :: ProjectFormData where
  "hiringNoUrl = scenarioDraft\<lparr>isHiring := True, careerPageUrl := Some []\<rparr>"

text \<open>A draft whose hiring flag is off again while a half-typed URL is still in the field.\<close>

definition staleDraft :: ProjectFormData where
  "staleDraft = scenarioDraft\<lparr>isHiring := False, careerPageUrl := Some ''exampl''\<rparr>"

text \<open>A freshly mounted project form with a logo staged.\<close>

definition freshForm :: projectForm where
  "freshForm =
     \<lparr>loading = False, trace = [],
      formValues = scenarioDraft\<lparr>name := [], tagline := [], description := [], categories := []\<rparr>,
      selectedCategories = [],
      logoFile = Some (File ''logo.png''), heroImageFile = None, projectImageFiles = [],
      logoPreview = ''data:logo'', heroImagePreview = [], projectImagePreviews = [],
      socialLinksSelection = \<lparr>inc_website = False, inc_twitter = False, inc_github = False,
                               inc_discord = False, inc_telegram = False\<rparr>\<rparr>"

text \<open>A stored project whose hiring flag is off although a career page is recorded.\<close>

definition storedProject :: Project where
  "storedProject =
     \<lparr>project_id = ''p1'', project_name = ''Foo'', project_tagline = ''bar'',
      project_description = ''a sufficiently long description'',
      project_categories = [''DeFi''],
      project_logo = None, project_heroImage = None, project_images = None,
      project_isHiring = False, project_careerPageUrl = Some ''https://foo.io/jobs'',
      project_isOpenForBounty = False, project_bountySubmissionUrl = None,
      project_isOpenSource = True, project_githubUrl = Some [],
      project_featured = False, project_status = PUBLISHED,
      project_socialLinks = None\<rparr>"

text \<open>A backend on which every call succeeds and \<open>n\<close> entities of each kind are featured.\<close>

definition okApi :: "int \<Rightarrow> api" where
  "okApi n =
     \<lparr>getFeaturedCounts = Inr \<lparr>count_projects = n, count_videos = n\<rparr>,
      getProject = (\<lambda>i. Inr storedProject),
      createProjectFolders = (\<lambda>n. Inr ()),
      uploadFile = (\<lambda>f t n. Inr \<lparr>url = ''https://cdn/'' @ t\<rparr>),
      uploadMultipleFiles = (\<lambda>fs t n. Inr (map (\<lambda>f. \<lparr>url = ''https://cdn/'' @ t\<rparr>) fs)),
      createProject = (\<lambda>pd. Inr ()),
      updateProject = (\<lambda>i pd. Inr ()),
      createVideoFolder = (\<lambda>n p. Inr ()),
      uploadVideoThumbnail = (\<lambda>f n p. Inr \<lparr>url = ''https://cdn/thumb''\<rparr>),
      createVideo = (\<lambda>v. Inr ()),
      updateVideo = (\<lambda>i v. Inr ())\<rparr>"

text \<open>A featured variant of the scenario draft, and a backend whose count query fails
  while every other call succeeds.\<close>

definition featuredDraft :: ProjectFormData where
  "featuredDraft = scenarioDraft\<lparr>featured := True\<rparr>"


text \<open>A video form with one published project loaded and a thumbnail staged, and a
  featured video draft for that project.\<close>

definition freshVideoForm :: videoForm where
  "freshVideoForm =
     \<lparr>loading = False, trace = [],
      projects = [storedProject],
      thumbnailFile = Some (File ''thumb.png''), thumbnailPreview = ''data:thumb''\<rparr>"

definition videoDraft :: VideoFormData where
  "videoDraft =
     \<lparr>title = ''Intro'', video_description = None, playbackId = ''aBcD01'',
      thumbnail = None, video_featured = True, projectId = ''p1''\<rparr>"

section \<open>Validation\<close>

lemma check_Nil [simp]: "(check ok f = []) = ok"
  by (simp add: check_def)

lemma set_check [simp]: "set (check ok f) = (if ok then {} else {f})"
  by (simp add: check_def)

lemma Validate_iff:
  "Validate isUrl d \<longleftrightarrow>
     name d \<noteq> [] \<and> tagline d \<noteq> [] \<and> 10 \<le> length (description d) \<and> categories d \<noteq> [] \<and>
     optionalUrl isUrl (website d) \<and> optionalUrl isUrl (careerPageUrl d) \<and>
     optionalUrl isUrl (bountySubmissionUrl d) \<and> optionalUrl isUrl (githubUrl d) \<and>
     optionalUrl isUrl (soc_website (socialLinks d)) \<and> optionalUrl isUrl (soc_twitter (socialLinks d)) \<and>
     optionalUrl isUrl (soc_github (socialLinks d)) \<and> optionalUrl isUrl (soc_discord (socialLinks d)) \<and>
     optionalUrl isUrl (soc_telegram (socialLinks d))"
  by (simp add: Validate_def projectSchema_def Suc_le_eq)

lemma scenarioDraft_valid: "Validate isUrl scenarioDraft"
  by (simp add: Validate_iff scenarioDraft_def optionalUrl_def)

text \<open>
  C1 as stated fails: the schema gives the three conditional URL fields the same
  optional-or-empty rule as every other URL field and never looks at the flags. With
  the hiring flag on and the career URL empty the draft is accepted, whatever the URL
  check of the library is.
\<close>

lemma hiringNoUrl_accepted: "Validate isUrl hiringNoUrl"
  by (simp add: Validate_iff hiringNoUrl_def scenarioDraft_def optionalUrl_def)

theorem Validate_flag_without_url_counterexample:
  "isHiring hiringNoUrl \<and> careerPageUrl hiringNoUrl = Some [] \<and> Validate httpsUrl hiringNoUrl"
  by (simp add: hiringNoUrl_accepted) (simp add: hiringNoUrl_def)

text \<open>
  C1, amended: for each of the three flag/URL pairs, \<open>Validate\<close> never requires the URL,
  whether the flag is true or false. Its verdict does not depend on the flags; an absent
  or empty URL raises no issue on its field; a non-empty value raises one exactly when
  it is not a well-formed URL, so a malformed value left behind while the flag is false
  is still rejected.
\<close>

theorem Validate_conditional_urls:
  "Validate isUrl (d\<lparr>isHiring := h, isOpenForBounty := b, isOpenSource := g\<rparr>) = Validate isUrl d
   \<and> (careerPageUrl d \<in> {None, Some []} \<longrightarrow> CareerPageUrl \<notin> set (projectSchema isUrl d))
   \<and> (bountySubmissionUrl d \<in> {None, Some []} \<longrightarrow> BountySubmissionUrl \<notin> set (projectSchema isUrl d))
   \<and> (githubUrl d \<in> {None, Some []} \<longrightarrow> GithubUrl \<notin> set (projectSchema isUrl d))
   \<and> (\<forall>u. careerPageUrl d = Some u \<and> u \<noteq> [] \<longrightarrow>
         (CareerPageUrl \<in> set (projectSchema isUrl d)) = (\<not> isUrl u))
   \<and> (\<forall>u. bountySubmissionUrl d = Some u \<and> u \<noteq> [] \<longrightarrow>
         (BountySubmissionUrl \<in> set (projectSchema isUrl d)) = (\<not> isUrl u))
   \<and> (\<forall>u. githubUrl d = Some u \<and> u \<noteq> [] \<longrightarrow>
         (GithubUrl \<in> set (projectSchema isUrl d)) = (\<not> isUrl u))"
  by (auto simp add: Validate_def projectSchema_def optionalUrl_def)

theorem Validate_conditional_urls_witness:
  "Validate httpsUrl (scenarioDraft\<lparr>isHiring := True, isOpenForBounty := True, isOpenSource := True\<rparr>)
   \<and> CareerPageUrl \<notin> set (projectSchema httpsUrl scenarioDraft)
   \<and> careerPageUrl staleDraft = Some ''exampl'' \<and> \<not> isHiring staleDraft
   \<and> CareerPageUrl \<in> set (projectSchema httpsUrl staleDraft)"
proof -
  have a: "careerPageUrl scenarioDraft \<in> {None, Some []}"
    by (simp add: scenarioDraft_def)
  have b: "careerPageUrl staleDraft = Some ''exampl'' \<and> ''exampl'' \<noteq> []"
    by (simp add: staleDraft_def)
  have c: "\<not> httpsUrl ''exampl''"
    by (simp add: httpsUrl_def)
  have d: "\<not> isHiring staleDraft"
    by (simp add: staleDraft_def)
  from Validate_conditional_urls [where isUrl = httpsUrl and d = scenarioDraft and h = True and b = True and g = True] a
       Validate_conditional_urls [where isUrl = httpsUrl and d = staleDraft and h = False and b = False and g = False] b c d
       scenarioDraft_valid [of httpsUrl]
  show ?thesis by blast
qed

text \<open>
  C2: \<open>Validate\<close> rejects every draft whose category set is empty, and accepts a draft
  with exactly one category whose name and tagline are non-empty, whose description has
  at least 10 characters and whose URL fields are each absent, empty or well-formed.
\<close>

theorem Validate_categories:
  "(set (categories d) = {} \<longrightarrow> \<not> Validate isUrl d)
   \<and> (length (categories d) = 1 \<and> name d \<noteq> [] \<and> tagline d \<noteq> [] \<and> 10 \<le> length (description d)
        \<and> optionalUrl isUrl (website d) \<and> optionalUrl isUrl (careerPageUrl d)
        \<and> optionalUrl isUrl (bountySubmissionUrl d) \<and> optionalUrl isUrl (githubUrl d)
        \<and> optionalUrl isUrl (soc_website (socialLinks d))
        \<and> optionalUrl isUrl (soc_twitter (socialLinks d))
        \<and> optionalUrl isUrl (soc_github (socialLinks d))
        \<and> optionalUrl isUrl (soc_discord (socialLinks d))
        \<and> optionalUrl isUrl (soc_telegram (socialLinks d))
      \<longrightarrow> Validate isUrl d)"
  by (auto simp add: Validate_iff)

theorem Validate_categories_witness:
  "\<not> Validate httpsUrl (scenarioDraft\<lparr>categories := []\<rparr>)
   \<and> Validate httpsUrl (scenarioDraft\<lparr>website := Some ''https://foo.io''\<rparr>)"
proof -
  have a: "set (categories (scenarioDraft\<lparr>categories := []\<rparr>)) = {}"
    by simp
  let ?d = "scenarioDraft\<lparr>website := Some ''https://foo.io''\<rparr>"
  have b: "length (categories ?d) = 1 \<and> name ?d \<noteq> [] \<and> tagline ?d \<noteq> [] \<and> 10 \<le> length (description ?d)"
    by (simp add: scenarioDraft_def)
  have c: "optionalUrl httpsUrl (website ?d) \<and> optionalUrl httpsUrl (careerPageUrl ?d)
        \<and> optionalUrl httpsUrl (bountySubmissionUrl ?d) \<and> optionalUrl httpsUrl (githubUrl ?d)"
    by (simp add: scenarioDraft_def optionalUrl_def httpsUrl_def)
  have d: "optionalUrl httpsUrl (soc_website (socialLinks ?d))
        \<and> optionalUrl httpsUrl (soc_twitter (socialLinks ?d))
        \<and> optionalUrl httpsUrl (soc_github (socialLinks ?d))
        \<and> optionalUrl httpsUrl (soc_discord (socialLinks ?d))
        \<and> optionalUrl httpsUrl (soc_telegram (socialLinks ?d))"
    by (simp add: scenarioDraft_def optionalUrl_def)
  from Validate_categories [where d = "scenarioDraft\<lparr>categories := []\<rparr>" and isUrl = httpsUrl] a
       Validate_categories [where d = ?d and isUrl = httpsUrl] b c d
  show ?thesis by blast
qed

section \<open>Category selection\<close>

text \<open>
  C3: toggling a category twice gives back the original set of selected categories, in
  the state cell and in the form value kept in sync with it, from every starting list.
\<close>

theorem toggleCategory_twice:
  "set (selectedCategories (toggleCategory c (toggleCategory c s))) = set (selectedCategories s)
   \<and> set (categories (formValues (toggleCategory c (toggleCategory c s)))) = set (selectedCategories s)"
  by (auto simp add: toggleCategory_def Let_def)


section \<open>Runs of the project form's submit handler\<close>

text \<open>
  What each block of the handler does to the state, and from these the possible runs of
  \<open>onSubmit\<close>: the cap rejection, a failure while creating the folder or uploading, a
  failed or successful create or update call, and the edit run without an id.
\<close>

lemmas async_defs = andThen_def perform_def await_def resolve_def throw_def emit_def setLoading_def

lemma uploadFiles_trace:
  "uploadFiles env n s = (r, s') \<Longrightarrow>
     \<exists>us. s' = s\<lparr>trace := trace s @ CreateProjectFolders n # us\<rparr> \<and> list_all isUpload us
        \<and> (\<not> isl r \<longrightarrow> list_all (answered env) (CreateProjectFolders n # us))"
  by (auto simp add: uploadFiles_def async_defs fulfilled_def split: sum.splits option.splits if_splits prod.splits)

lemma featuredCheck_run:
  "featuredCheck env m ft count msg s = (r, s') \<Longrightarrow>
     (\<not> ft \<and> r = Inr True \<and> s' = s)
   \<or> (ft \<and> \<not> fulfilled (getFeaturedCounts env) \<and> r = Inr True \<and> s' = s\<lparr>trace := trace s @ [GetFeaturedCounts]\<rparr>)
   \<or> (ft \<and> (\<exists>c. getFeaturedCounts env = Inr c \<and> count c < 3) \<and> r = Inr True \<and> s' = s\<lparr>trace := trace s @ [GetFeaturedCounts]\<rparr>)
   \<or> (ft \<and> (\<exists>c. getFeaturedCounts env = Inr c \<and> 3 \<le> count c) \<and> r = Inr False
        \<and> s' = s\<lparr>loading := False, trace := trace s @ [GetFeaturedCounts, ToastError msg]\<rparr>)"
  by (cases m) (auto simp add: featuredCheck_def async_defs fulfilled_def split: sum.splits if_splits)

lemma saveProject_run:
  "saveProject env m eid pd s = (r, s') \<Longrightarrow>
     (m = Create \<and> \<not> fulfilled (createProject env pd) \<and> isl r \<and> s' = s\<lparr>trace := trace s @ [CreateProject pd]\<rparr>)
   \<or> (m = Create \<and> fulfilled (createProject env pd) \<and> r = Inr ()
        \<and> s' = s\<lparr>trace := trace s @ [CreateProject pd, ToastSuccess ''Project created successfully'']\<rparr>)
   \<or> (m = Edit \<and> \<not> truthy eid \<and> r = Inr () \<and> s' = s)
   \<or> (m = Edit \<and> truthy eid \<and> \<not> fulfilled (updateProject env (orEmpty eid) pd) \<and> isl r
        \<and> s' = s\<lparr>trace := trace s @ [UpdateProject (orEmpty eid) pd]\<rparr>)
   \<or> (m = Edit \<and> truthy eid \<and> fulfilled (updateProject env (orEmpty eid) pd) \<and> r = Inr ()
        \<and> s' = s\<lparr>trace := trace s @ [UpdateProject (orEmpty eid) pd, ToastSuccess ''Project updated successfully'']\<rparr>)"
  by (cases m) (auto simp add: saveProject_def async_defs fulfilled_def split: sum.splits if_splits)

lemma guardedBy_True [simp]: "guardedBy F True evs"
  by (induction evs) auto

lemma uploads_no_save [simp]: "list_all isUpload us \<Longrightarrow> filter isSave us = []"
  by (induction us) (auto elim: isUpload.elims)

lemma uploads_only [simp]: "list_all isUpload us \<Longrightarrow> \<not> isUpload e \<Longrightarrow> e \<notin> set us"
  by (auto simp add: list_all_iff)

lemma guardedBy_index:
  "guardedBy F seen evs \<Longrightarrow> i < length evs \<Longrightarrow> isUpload (evs ! i) \<Longrightarrow> seen \<or> F \<in> set (take i evs)"
proof (induction evs arbitrary: seen i)
  case Nil
  then show ?case by simp
next
  case (Cons e es)
  show ?case
  proof (cases i)
    case 0
    with Cons.prems show ?thesis by (simp split: if_splits)
  next
    case (Suc k)
    with Cons.prems Cons.IH [of seen k] Cons.IH [of "seen \<or> e = F" k]
    show ?thesis by (auto split: if_splits)
  qed
qed

lemmas run_defs = emitted_def onSubmit_def onSubmit_try_def async_defs

text \<open>The handler only appends to the trace, so \<open>emitted\<close> is all that it added.\<close>

lemma emitted_append: "trace s' = trace s @ evs \<Longrightarrow> trace s' = trace s @ emitted s s'"
  by (simp add: emitted_def)

lemma onSubmit_appends: "trace (onSubmit env m eid d s) = trace s @ emitted s (onSubmit env m eid d s)"
proof -
  have "\<exists>evs. trace (onSubmit env m eid d s) = trace s @ evs"
    by (auto simp add: onSubmit_def onSubmit_try_def async_defs split: prod.splits sum.splits
          dest!: uploadFiles_trace featuredCheck_run saveProject_run)
  then show ?thesis by (auto intro: emitted_append)
qed

lemma onSubmit_cases [consumes 0, case_names capped uploadFailed createFailed created updateFailed updated noId]:
  fixes env m eid d s
  defines "evs \<equiv> emitted s (onSubmit env m eid d s)"
  defines "pre \<equiv> (if featured d then [GetFeaturedCounts] else [])"
  defines "F \<equiv> CreateProjectFolders (name d)"
  obtains
    (capped) c where "featured d" "getFeaturedCounts env = Inr c" "3 \<le> count_projects c"
      "evs = [GetFeaturedCounts, ToastError projectCapMessage]"
  | (uploadFailed) us where "list_all isUpload us"
      "evs = pre @ F # us @ [ConsoleError ''Failed to save project:'']"
  | (createFailed) us u where "list_all isUpload us" "list_all (answered env) (F # us)"
      "m = Create" "\<not> fulfilled (createProject env (mkProjectData d u))"
      "evs = pre @ F # us @ [CreateProject (mkProjectData d u), ConsoleError ''Failed to save project:'']"
  | (created) us u where "list_all isUpload us" "list_all (answered env) (F # us)"
      "m = Create" "fulfilled (createProject env (mkProjectData d u))"
      "evs = pre @ F # us @ [CreateProject (mkProjectData d u),
             ToastSuccess ''Project created successfully'', Navigate ''/projects'']"
  | (updateFailed) us u where "list_all isUpload us" "list_all (answered env) (F # us)"
      "m = Edit" "truthy eid" "\<not> fulfilled (updateProject env (orEmpty eid) (mkProjectData d u))"
      "evs = pre @ F # us @ [UpdateProject (orEmpty eid) (mkProjectData d u),
             ConsoleError ''Failed to save project:'']"
  | (updated) us u where "list_all isUpload us" "list_all (answered env) (F # us)"
      "m = Edit" "truthy eid" "fulfilled (updateProject env (orEmpty eid) (mkProjectData d u))"
      "evs = pre @ F # us @ [UpdateProject (orEmpty eid) (mkProjectData d u),
             ToastSuccess ''Project updated successfully'', Navigate ''/projects'']"
  | (noId) us where "list_all isUpload us" "list_all (answered env) (F # us)"
      "m = Edit" "\<not> truthy eid"
      "evs = pre @ F # us @ [Navigate ''/projects'']"
proof -
  obtain r1 s1 where
    fc: "featuredCheck env m (featured d) count_projects projectCapMessage (setLoading True s) = (r1, s1)"
    by (cases "featuredCheck env m (featured d) count_projects projectCapMessage (setLoading True s)")
  from featuredCheck_run [OF fc]
  consider (stop) c where "featured d" "getFeaturedCounts env = Inr c" "3 \<le> count_projects c"
        "r1 = Inr False"
        "s1 = s\<lparr>loading := False, trace := trace s @ [GetFeaturedCounts, ToastError projectCapMessage]\<rparr>"
    | (go) "r1 = Inr True" "s1 = s\<lparr>loading := True, trace := trace s @ pre\<rparr>"
    by (auto simp add: pre_def setLoading_def)
  then show thesis
  proof cases
    case stop
    from fc stop have "evs = [GetFeaturedCounts, ToastError projectCapMessage]"
      by (simp add: evs_def run_defs)
    with stop show thesis by (intro capped)
  next
    case go
    obtain r2 s2 where uf: "uploadFiles env (name d) s1 = (r2, s2)"
      by (cases "uploadFiles env (name d) s1")
    from uploadFiles_trace [OF uf] obtain us where
      us: "s2 = s1\<lparr>trace := trace s1 @ F # us\<rparr>" "list_all isUpload us"
          "\<not> isl r2 \<longrightarrow> list_all (answered env) (F # us)"
      by (auto simp add: F_def)
    show thesis
    proof (cases r2)
      case (Inl e)
      from fc go uf us Inl have "evs = pre @ F # us @ [ConsoleError ''Failed to save project:'']"
        by (simp add: evs_def run_defs)
      with us show thesis by (intro uploadFailed)
    next
      case (Inr u)
      with us have ans: "list_all (answered env) (F # us)" by simp
      obtain r3 s3 where sp: "saveProject env m eid (mkProjectData d u) s2 = (r3, s3)"
        by (cases "saveProject env m eid (mkProjectData d u) s2")
      from saveProject_run [OF sp] show thesis
      proof (elim disjE conjE)
        assume a: "m = Create" "\<not> fulfilled (createProject env (mkProjectData d u))" "isl r3"
          "s3 = s2\<lparr>trace := trace s2 @ [CreateProject (mkProjectData d u)]\<rparr>"
        from fc go uf us Inr sp a
        have "evs = pre @ F # us @ [CreateProject (mkProjectData d u), ConsoleError ''Failed to save project:'']"
          by (cases r3) (simp_all add: evs_def run_defs)
        with us ans a show thesis by (intro createFailed)
      next
        assume a: "m = Create" "fulfilled (createProject env (mkProjectData d u))" "r3 = Inr ()"
          "s3 = s2\<lparr>trace := trace s2 @ [CreateProject (mkProjectData d u), ToastSuccess ''Project created successfully'']\<rparr>"
        from fc go uf us Inr sp a
        have "evs = pre @ F # us @ [CreateProject (mkProjectData d u),
                ToastSuccess ''Project created successfully'', Navigate ''/projects'']"
          by (simp add: evs_def run_defs)
        with us ans a show thesis by (intro created)
      next
        assume a: "m = Edit" "\<not> truthy eid" "r3 = Inr ()" "s3 = s2"
        from fc go uf us Inr sp a
        have "evs = pre @ F # us @ [Navigate ''/projects'']"
          by (simp add: evs_def run_defs)
        with us ans a show thesis by (intro noId)
      next
        assume a: "m = Edit" "truthy eid"
          "\<not> fulfilled (updateProject env (orEmpty eid) (mkProjectData d u))" "isl r3"
          "s3 = s2\<lparr>trace := trace s2 @ [UpdateProject (orEmpty eid) (mkProjectData d u)]\<rparr>"
        from fc go uf us Inr sp a
        have "evs = pre @ F # us @ [UpdateProject (orEmpty eid) (mkProjectData d u),
                ConsoleError ''Failed to save project:'']"
          by (cases r3) (simp_all add: evs_def run_defs)
        with us ans a show thesis by (intro updateFailed)
      next
        assume a: "m = Edit" "truthy eid"
          "fulfilled (updateProject env (orEmpty eid) (mkProjectData d u))" "r3 = Inr ()"
          "s3 = s2\<lparr>trace := trace s2 @ [UpdateProject (orEmpty eid) (mkProjectData d u),
                   ToastSuccess ''Project updated successfully'']\<rparr>"
        from fc go uf us Inr sp a
        have "evs = pre @ F # us @ [UpdateProject (orEmpty eid) (mkProjectData d u),
                ToastSuccess ''Project updated successfully'', Navigate ''/projects'']"
          by (simp add: evs_def run_defs)
        with us ans a show thesis by (intro updated)
      qed
    qed
  qed
qed


lemma project_cap:
  "featured d \<Longrightarrow> getFeaturedCounts env = Inr c \<Longrightarrow> 3 \<le> count_projects c \<Longrightarrow>
   emitted s (onSubmit env m eid d s) = [GetFeaturedCounts, ToastError projectCapMessage]"
  by (cases m; simp add: run_defs featuredCheck_def)

lemma project_below:
  "featured d \<Longrightarrow> getFeaturedCounts env = Inr c \<Longrightarrow> count_projects c < 3 \<Longrightarrow>
   take 2 (emitted s (onSubmit env m eid d s)) = [GetFeaturedCounts, CreateProjectFolders (name d)]
   \<and> ToastError projectCapMessage \<notin> set (emitted s (onSubmit env m eid d s))"
  by (rule onSubmit_cases [where env = env and m = m and eid = eid and d = d and s = s]) auto

lemma project_guarded:
  "guardedBy (CreateProjectFolders (name d)) False (emitted s (onSubmit env m eid d s))"
  by (rule onSubmit_cases [where env = env and m = m and eid = eid and d = d and s = s]) simp_all

lemma project_payload:
  "CreateProject pd \<in> set (emitted s (onSubmit env m eid d s))
     \<or> UpdateProject i pd \<in> set (emitted s (onSubmit env m eid d s))
   \<Longrightarrow> pd \<in> range (mkProjectData d)"
  by (rule onSubmit_cases [where env = env and m = m and eid = eid and d = d and s = s]) auto






section \<open>Runs of the video form's submit handler\<close>

lemma uploadThumbnail_trace:
  "uploadThumbnail env n p s = (r, s') \<Longrightarrow>
     \<exists>ups. s' = s\<lparr>trace := trace s @ ups\<rparr>
        \<and> (thumbnailFile s = None \<and> ups = [] \<and> r = Inr None
            \<or> thumbnailFile s \<noteq> None \<and> (\<exists>us. ups = CreateVideoFolder n p # us \<and> list_all isUpload us))
        \<and> (\<not> isl r \<longrightarrow> list_all (answered env) ups)"
  by (auto simp add: uploadThumbnail_def async_defs fulfilled_def split: sum.splits option.splits prod.splits)

lemma saveVideo_run:
  "saveVideo env m eid v s = (r, s') \<Longrightarrow>
     (m = Create \<and> \<not> fulfilled (createVideo env v) \<and> isl r \<and> s' = s\<lparr>trace := trace s @ [CreateVideo v]\<rparr>)
   \<or> (m = Create \<and> fulfilled (createVideo env v) \<and> r = Inr ()
        \<and> s' = s\<lparr>trace := trace s @ [CreateVideo v, ToastSuccess ''Video created successfully'']\<rparr>)
   \<or> (m = Edit \<and> \<not> truthy eid \<and> r = Inr () \<and> s' = s)
   \<or> (m = Edit \<and> truthy eid \<and> \<not> fulfilled (updateVideo env (orEmpty eid) v) \<and> isl r
        \<and> s' = s\<lparr>trace := trace s @ [UpdateVideo (orEmpty eid) v]\<rparr>)
   \<or> (m = Edit \<and> truthy eid \<and> fulfilled (updateVideo env (orEmpty eid) v) \<and> r = Inr ()
        \<and> s' = s\<lparr>trace := trace s @ [UpdateVideo (orEmpty eid) v, ToastSuccess ''Video updated successfully'']\<rparr>)"
  by (cases m) (auto simp add: saveVideo_def async_defs fulfilled_def split: sum.splits if_splits)

lemmas video_run_defs = emitted_def video_onSubmit_def video_onSubmit_try_def async_defs

lemma video_onSubmit_appends:
  "trace (video_onSubmit env m eid d s) = trace s @ emitted s (video_onSubmit env m eid d s)"
proof -
  have "\<exists>evs. trace (video_onSubmit env m eid d s) = trace s @ evs"
    by (auto simp add: video_onSubmit_def video_onSubmit_try_def async_defs
          split: prod.splits sum.splits option.splits
          dest!: uploadThumbnail_trace featuredCheck_run saveVideo_run)
  then show ?thesis by (auto intro: emitted_append)
qed

lemma video_onSubmit_cases [consumes 0, case_names capped notFound uploadFailed createFailed created updateFailed updated noId]:
  fixes env m eid d s
  defines "evs \<equiv> emitted s (video_onSubmit env m eid d s)"
  defines "pre \<equiv> (if video_featured d then [GetFeaturedCounts] else [])"
  defines "sel \<equiv> find (\<lambda>p. project_id p = projectId d) (projects s)"
  defines "shape \<equiv> (\<lambda>p ups t. thumbnailFile s = None \<and> ups = [] \<and> t = None
              \<or> thumbnailFile s \<noteq> None
                \<and> (\<exists>us. ups = CreateVideoFolder (project_name p) (playbackId d) # us \<and> list_all isUpload us))"
  obtains
    (capped) c where "video_featured d" "getFeaturedCounts env = Inr c" "3 \<le> count_videos c"
      "evs = [GetFeaturedCounts, ToastError videoCapMessage]"
  | (notFound) "sel = None" "evs = pre @ [ConsoleError ''Failed to save video:'']"
  | (uploadFailed) p us where "sel = Some p" "thumbnailFile s \<noteq> None" "list_all isUpload us"
      "evs = pre @ CreateVideoFolder (project_name p) (playbackId d) # us @ [ConsoleError ''Failed to save video:'']"
  | (createFailed) p ups t where "sel = Some p" "shape p ups t" "list_all (answered env) ups"
      "m = Create" "\<not> fulfilled (createVideo env (mkVideoData d t))"
      "evs = pre @ ups @ [CreateVideo (mkVideoData d t), ConsoleError ''Failed to save video:'']"
  | (created) p ups t where "sel = Some p" "shape p ups t" "list_all (answered env) ups"
      "m = Create" "fulfilled (createVideo env (mkVideoData d t))"
      "evs = pre @ ups @ [CreateVideo (mkVideoData d t),
             ToastSuccess ''Video created successfully'', Navigate ''/videos'']"
  | (updateFailed) p ups t where "sel = Some p" "shape p ups t" "list_all (answered env) ups"
      "m = Edit" "truthy eid" "\<not> fulfilled (updateVideo env (orEmpty eid) (mkVideoData d t))"
      "evs = pre @ ups @ [UpdateVideo (orEmpty eid) (mkVideoData d t),
             ConsoleError ''Failed to save video:'']"
  | (updated) p ups t where "sel = Some p" "shape p ups t" "list_all (answered env) ups"
      "m = Edit" "truthy eid" "fulfilled (updateVideo env (orEmpty eid) (mkVideoData d t))"
      "evs = pre @ ups @ [UpdateVideo (orEmpty eid) (mkVideoData d t),
             ToastSuccess ''Video updated successfully'', Navigate ''/videos'']"
  | (noId) p ups t where "sel = Some p" "shape p ups t" "list_all (answered env) ups"
      "m = Edit" "\<not> truthy eid"
      "evs = pre @ ups @ [Navigate ''/videos'']"
proof -
  obtain r1 s1 where
    fc: "featuredCheck env m (video_featured d) count_videos videoCapMessage (setLoading True s) = (r1, s1)"
    by (cases "featuredCheck env m (video_featured d) count_videos videoCapMessage (setLoading True s)")
  from featuredCheck_run [OF fc]
  consider (stop) c where "video_featured d" "getFeaturedCounts env = Inr c" "3 \<le> count_videos c"
        "r1 = Inr False"
        "s1 = s\<lparr>loading := False, trace := trace s @ [GetFeaturedCounts, ToastError videoCapMessage]\<rparr>"
    | (go) "r1 = Inr True" "s1 = s\<lparr>loading := True, trace := trace s @ pre\<rparr>"
    by (auto simp add: pre_def setLoading_def)
  then show thesis
  proof cases
    case stop
    from fc stop have "evs = [GetFeaturedCounts, ToastError videoCapMessage]"
      by (simp add: evs_def video_run_defs)
    with stop show thesis by (intro capped)
  next
    case go
    show thesis
    proof (cases sel)
      case None
      with fc go have "evs = pre @ [ConsoleError ''Failed to save video:'']"
        by (simp add: evs_def sel_def video_run_defs)
      with None show thesis by (intro notFound)
    next
      case (Some p)
      from Some go have sel1: "find (\<lambda>p. project_id p = projectId d) (projects s1) = Some p"
        by (simp add: sel_def)
      obtain r2 s2 where ut: "uploadThumbnail env (project_name p) (playbackId d) s1 = (r2, s2)"
        by (cases "uploadThumbnail env (project_name p) (playbackId d) s1")
      from uploadThumbnail_trace [OF ut] go obtain ups where
        ups: "s2 = s1\<lparr>trace := trace s1 @ ups\<rparr>"
             "thumbnailFile s = None \<and> ups = [] \<and> r2 = Inr None
              \<or> thumbnailFile s \<noteq> None
                \<and> (\<exists>us. ups = CreateVideoFolder (project_name p) (playbackId d) # us \<and> list_all isUpload us)"
             "\<not> isl r2 \<longrightarrow> list_all (answered env) ups"
        by auto
      show thesis
      proof (cases r2)
        case (Inl e)
        with ups obtain us where
          us: "thumbnailFile s \<noteq> None" "ups = CreateVideoFolder (project_name p) (playbackId d) # us"
              "list_all isUpload us"
          by auto
        from fc go sel1 ut ups(1) us Inl
        have "evs = pre @ CreateVideoFolder (project_name p) (playbackId d) # us @ [ConsoleError ''Failed to save video:'']"
          by (simp add: evs_def video_run_defs)
        with Some us show thesis by (intro uploadFailed)
      next
        case (Inr t)
        with ups have ans: "list_all (answered env) ups" and sh: "shape p ups t"
          by (auto simp add: shape_def)
        obtain r3 s3 where sv: "saveVideo env m eid (mkVideoData d t) s2 = (r3, s3)"
          by (cases "saveVideo env m eid (mkVideoData d t) s2")
        from saveVideo_run [OF sv] show thesis
        proof (elim disjE conjE)
          assume a: "m = Create" "\<not> fulfilled (createVideo env (mkVideoData d t))" "isl r3"
            "s3 = s2\<lparr>trace := trace s2 @ [CreateVideo (mkVideoData d t)]\<rparr>"
          from fc go sel1 ut ups(1) Inr sv a
          have "evs = pre @ ups @ [CreateVideo (mkVideoData d t), ConsoleError ''Failed to save video:'']"
            by (cases r3) (simp_all add: evs_def video_run_defs)
          with Some sh ans a show thesis by (intro createFailed)
        next
          assume a: "m = Create" "fulfilled (createVideo env (mkVideoData d t))" "r3 = Inr ()"
            "s3 = s2\<lparr>trace := trace s2 @ [CreateVideo (mkVideoData d t), ToastSuccess ''Video created successfully'']\<rparr>"
          from fc go sel1 ut ups(1) Inr sv a
          have "evs = pre @ ups @ [CreateVideo (mkVideoData d t),
                  ToastSuccess ''Video created successfully'', Navigate ''/videos'']"
            by (simp add: evs_def video_run_defs)
          with Some sh ans a show thesis by (intro created)
        next
          assume a: "m = Edit" "\<not> truthy eid" "r3 = Inr ()" "s3 = s2"
          from fc go sel1 ut ups(1) Inr sv a
          have "evs = pre @ ups @ [Navigate ''/videos'']"
            by (simp add: evs_def video_run_defs)
          with Some sh ans a show thesis by (intro noId)
        next
          assume a: "m = Edit" "truthy eid"
            "\<not> fulfilled (updateVideo env (orEmpty eid) (mkVideoData d t))" "isl r3"
            "s3 = s2\<lparr>trace := trace s2 @ [UpdateVideo (orEmpty eid) (mkVideoData d t)]\<rparr>"
          from fc go sel1 ut ups(1) Inr sv a
          have "evs = pre @ ups @ [UpdateVideo (orEmpty eid) (mkVideoData d t),
                  ConsoleError ''Failed to save video:'']"
            by (cases r3) (simp_all add: evs_def video_run_defs)
          with Some sh ans a show thesis by (intro updateFailed)
        next
          assume a: "m = Edit" "truthy eid"
            "fulfilled (updateVideo env (orEmpty eid) (mkVideoData d t))" "r3 = Inr ()"
            "s3 = s2\<lparr>trace := trace s2 @ [UpdateVideo (orEmpty eid) (mkVideoData d t),
                     ToastSuccess ''Video updated successfully'']\<rparr>"
          from fc go sel1 ut ups(1) Inr sv a
          have "evs = pre @ ups @ [UpdateVideo (orEmpty eid) (mkVideoData d t),
                  ToastSuccess ''Video updated successfully'', Navigate ''/videos'']"
            by (simp add: evs_def video_run_defs)
          with Some sh ans a show thesis by (intro updated)
        qed
      qed
    qed
  qed
qed

lemma mkVideoData_None [simp]: "mkVideoData d None = d"
  by (simp add: mkVideoData_def truthy_def)

lemma video_cap:
  "video_featured d \<Longrightarrow> getFeaturedCounts env = Inr c \<Longrightarrow> 3 \<le> count_videos c \<Longrightarrow>
   emitted s (video_onSubmit env m eid d s) = [GetFeaturedCounts, ToastError videoCapMessage]"
  by (cases m; simp add: video_run_defs featuredCheck_def)

lemma video_below:
  "video_featured d \<Longrightarrow> getFeaturedCounts env = Inr c \<Longrightarrow> count_videos c < 3 \<Longrightarrow>
   ToastError videoCapMessage \<notin> set (emitted s (video_onSubmit env m eid d s))
   \<and> (\<forall>p. find (\<lambda>p. project_id p = projectId d) (projects s) = Some p \<longrightarrow>
        (thumbnailFile s \<noteq> None \<longrightarrow>
           take 2 (emitted s (video_onSubmit env m eid d s))
             = [GetFeaturedCounts, CreateVideoFolder (project_name p) (playbackId d)])
      \<and> (thumbnailFile s = None \<and> m = Create \<longrightarrow>
           take 2 (emitted s (video_onSubmit env m eid d s)) = [GetFeaturedCounts, CreateVideo d])
      \<and> (thumbnailFile s = None \<and> m = Edit \<and> truthy eid \<longrightarrow>
           take 2 (emitted s (video_onSubmit env m eid d s))
             = [GetFeaturedCounts, UpdateVideo (orEmpty eid) d]))"
  by (rule video_onSubmit_cases [where env = env and m = m and eid = eid and d = d and s = s]) auto

lemma video_guarded:
  "(find (\<lambda>p. project_id p = projectId d) (projects s) = None \<longrightarrow>
      list_all (\<lambda>e. \<not> isUpload e) (emitted s (video_onSubmit env m eid d s)))
   \<and> (\<forall>p. find (\<lambda>p. project_id p = projectId d) (projects s) = Some p \<longrightarrow>
      guardedBy (CreateVideoFolder (project_name p) (playbackId d)) False
        (emitted s (video_onSubmit env m eid d s)))"
  by (rule video_onSubmit_cases [where env = env and m = m and eid = eid and d = d and s = s]) auto







section \<open>Concrete runs\<close>

lemmas handler_defs = uploadFiles_def saveProject_def featuredCheck_def mkProjectData_def
  uploadThumbnail_def saveVideo_def mkVideoData_def

lemma scenario_run:
  "emitted freshForm (onSubmit (okApi 0) Create None scenarioDraft freshForm) =
     [CreateProjectFolders ''Foo'', UploadFile (File ''logo.png'') ''logo'' ''Foo'',
      CreateProject (mkProjectData scenarioDraft
         \<lparr>up_logo = Some ''https://cdn/logo'', up_heroImage = None, up_projectImages = None\<rparr>),
      ToastSuccess ''Project created successfully'', Navigate ''/projects'']"
  by (simp add: run_defs handler_defs freshForm_def okApi_def scenarioDraft_def)


lemma video_run:
  "emitted freshVideoForm (video_onSubmit (okApi 0) Edit (Some ''v7'') videoDraft freshVideoForm) =
     [GetFeaturedCounts, CreateVideoFolder ''Foo'' ''aBcD01'',
      UploadVideoThumbnail (File ''thumb.png'') ''Foo'' ''aBcD01'',
      UpdateVideo ''v7'' (videoDraft\<lparr>thumbnail := Some ''https://cdn/thumb''\<rparr>),
      ToastSuccess ''Video updated successfully'', Navigate ''/videos'']"
  by (simp add: video_run_defs handler_defs freshVideoForm_def okApi_def videoDraft_def
        storedProject_def truthy_def orEmpty_def)

lemma featuredDraft_facts: "featured featuredDraft" "name featuredDraft = ''Foo''"
  by (simp_all add: featuredDraft_def scenarioDraft_def)

lemma videoDraft_facts:
  "video_featured videoDraft" "playbackId videoDraft = ''aBcD01''"
  "find (\<lambda>p. project_id p = projectId videoDraft) (projects freshVideoForm) = Some storedProject"
  "thumbnailFile freshVideoForm \<noteq> None" "project_name storedProject = ''Foo''"
  by (simp_all add: videoDraft_def freshVideoForm_def storedProject_def)

lemma okApi_counts:
  "getFeaturedCounts (okApi n) = Inr \<lparr>count_projects = n, count_videos = n\<rparr>"
  by (simp add: okApi_def)

section \<open>The featured cap\<close>

text \<open>
  C4: when the draft is featured and the count query answers with a count of 3 or more
  for the form's kind, the handler only issues the query and shows the cap message: no
  folder, upload, create or update call is made. When the answered count is below 3,
  no cap message is shown and the handler goes on with its next step: the project form
  creates the folders; the video form, once the selected project is found, creates the
  video folder when a thumbnail is staged and otherwise sends the create or update call.
\<close>

theorem featured_cap_enforced:
  "(featured d \<and> getFeaturedCounts env = Inr c \<and> 3 \<le> count_projects c \<longrightarrow>
      emitted s (onSubmit env m eid d s) = [GetFeaturedCounts, ToastError projectCapMessage])
   \<and> (featured d \<and> getFeaturedCounts env = Inr c \<and> count_projects c < 3 \<longrightarrow>
      take 2 (emitted s (onSubmit env m eid d s)) = [GetFeaturedCounts, CreateProjectFolders (name d)]
      \<and> ToastError projectCapMessage \<notin> set (emitted s (onSubmit env m eid d s)))
   \<and> (video_featured dv \<and> getFeaturedCounts env = Inr c \<and> 3 \<le> count_videos c \<longrightarrow>
      emitted sv (video_onSubmit env m eid dv sv) = [GetFeaturedCounts, ToastError videoCapMessage])
   \<and> (video_featured dv \<and> getFeaturedCounts env = Inr c \<and> count_videos c < 3 \<longrightarrow>
      ToastError videoCapMessage \<notin> set (emitted sv (video_onSubmit env m eid dv sv))
      \<and> (\<forall>p. find (\<lambda>p. project_id p = projectId dv) (projects sv) = Some p \<longrightarrow>
           (thumbnailFile sv \<noteq> None \<longrightarrow>
              take 2 (emitted sv (video_onSubmit env m eid dv sv))
                = [GetFeaturedCounts, CreateVideoFolder (project_name p) (playbackId dv)])
         \<and> (thumbnailFile sv = None \<and> m = Create \<longrightarrow>
              take 2 (emitted sv (video_onSubmit env m eid dv sv)) = [GetFeaturedCounts, CreateVideo dv])
         \<and> (thumbnailFile sv = None \<and> m = Edit \<and> truthy eid \<longrightarrow>
              take 2 (emitted sv (video_onSubmit env m eid dv sv))
                = [GetFeaturedCounts, UpdateVideo (orEmpty eid) dv])))"
proof (intro conjI)
  show "featured d \<and> getFeaturedCounts env = Inr c \<and> 3 \<le> count_projects c \<longrightarrow>
      emitted s (onSubmit env m eid d s) = [GetFeaturedCounts, ToastError projectCapMessage]"
    using project_cap [of d env c s m eid] by blast
  show "featured d \<and> getFeaturedCounts env = Inr c \<and> count_projects c < 3 \<longrightarrow>
      take 2 (emitted s (onSubmit env m eid d s)) = [GetFeaturedCounts, CreateProjectFolders (name d)]
      \<and> ToastError projectCapMessage \<notin> set (emitted s (onSubmit env m eid d s))"
    using project_below [of d env c s m eid] by blast
  show "video_featured dv \<and> getFeaturedCounts env = Inr c \<and> 3 \<le> count_videos c \<longrightarrow>
      emitted sv (video_onSubmit env m eid dv sv) = [GetFeaturedCounts, ToastError videoCapMessage]"
    using video_cap [of dv env c sv m eid] by blast
  show "video_featured dv \<and> getFeaturedCounts env = Inr c \<and> count_videos c < 3 \<longrightarrow>
      ToastError videoCapMessage \<notin> set (emitted sv (video_onSubmit env m eid dv sv))
      \<and> (\<forall>p. find (\<lambda>p. project_id p = projectId dv) (projects sv) = Some p \<longrightarrow>
           (thumbnailFile sv \<noteq> None \<longrightarrow>
              take 2 (emitted sv (video_onSubmit env m eid dv sv))
                = [GetFeaturedCounts, CreateVideoFolder (project_name p) (playbackId dv)])
         \<and> (thumbnailFile sv = None \<and> m = Create \<longrightarrow>
              take 2 (emitted sv (video_onSubmit env m eid dv sv)) = [GetFeaturedCounts, CreateVideo dv])
         \<and> (thumbnailFile sv = None \<and> m = Edit \<and> truthy eid \<longrightarrow>
              take 2 (emitted sv (video_onSubmit env m eid dv sv))
                = [GetFeaturedCounts, UpdateVideo (orEmpty eid) dv]))"
    using video_below [of dv env c sv m eid] by blast
qed

theorem featured_cap_enforced_witness:
  "emitted freshForm (onSubmit (okApi 3) Create None featuredDraft freshForm)
     = [GetFeaturedCounts, ToastError projectCapMessage]
   \<and> take 2 (emitted freshForm (onSubmit (okApi 2) Create None featuredDraft freshForm))
     = [GetFeaturedCounts, CreateProjectFolders ''Foo'']
   \<and> emitted freshVideoForm (video_onSubmit (okApi 3) Edit (Some ''v7'') videoDraft freshVideoForm)
     = [GetFeaturedCounts, ToastError videoCapMessage]
   \<and> take 2 (emitted freshVideoForm (video_onSubmit (okApi 2) Edit (Some ''v7'') videoDraft freshVideoForm))
     = [GetFeaturedCounts, CreateVideoFolder ''Foo'' ''aBcD01'']"
  using
    featured_cap_enforced [where d = featuredDraft and env = "okApi 3" and m = Create and eid = None
      and c = "\<lparr>count_projects = 3, count_videos = 3\<rparr>" and s = freshForm]
    featured_cap_enforced [where d = featuredDraft and env = "okApi 2" and m = Create and eid = None
      and c = "\<lparr>count_projects = 2, count_videos = 2\<rparr>" and s = freshForm]
    featured_cap_enforced [where dv = videoDraft and env = "okApi 3" and m = Edit and eid = "Some ''v7''"
      and c = "\<lparr>count_projects = 3, count_videos = 3\<rparr>" and sv = freshVideoForm]
    featured_cap_enforced [where dv = videoDraft and env = "okApi 2" and m = Edit and eid = "Some ''v7''"
      and c = "\<lparr>count_projects = 2, count_videos = 2\<rparr>" and sv = freshVideoForm]
  by (simp add: featuredDraft_facts videoDraft_facts okApi_counts)


section \<open>Order of the storage calls\<close>

text \<open>
  C5: in every run of a submit handler, an upload call is preceded by the folder
  creation call: in the project form \<open>createProjectFolders\<close> for the draft's name comes
  before every \<open>uploadFile\<close> and \<open>uploadMultipleFiles\<close> call; in the video form
  \<open>createVideoFolder\<close> for the selected project and the playback id comes before the
  thumbnail upload.
\<close>

theorem folder_creation_precedes_uploads:
  "(\<forall>i < length (emitted s (onSubmit env m eid d s)).
      isUpload (emitted s (onSubmit env m eid d s) ! i) \<longrightarrow>
      CreateProjectFolders (name d) \<in> set (take i (emitted s (onSubmit env m eid d s))))
   \<and> (\<forall>i < length (emitted sv (video_onSubmit env m eid dv sv)).
      isUpload (emitted sv (video_onSubmit env m eid dv sv) ! i) \<longrightarrow>
      (\<exists>p. find (\<lambda>p. project_id p = projectId dv) (projects sv) = Some p
         \<and> CreateVideoFolder (project_name p) (playbackId dv)
             \<in> set (take i (emitted sv (video_onSubmit env m eid dv sv)))))"
proof (intro conjI allI impI)
  fix i
  assume "i < length (emitted s (onSubmit env m eid d s))"
    and "isUpload (emitted s (onSubmit env m eid d s) ! i)"
  with guardedBy_index [OF project_guarded]
  show "CreateProjectFolders (name d) \<in> set (take i (emitted s (onSubmit env m eid d s)))"
    by blast
next
  fix i
  let ?evs = "emitted sv (video_onSubmit env m eid dv sv)"
  assume i: "i < length ?evs" and up: "isUpload (?evs ! i)"
  show "\<exists>p. find (\<lambda>p. project_id p = projectId dv) (projects sv) = Some p
          \<and> CreateVideoFolder (project_name p) (playbackId dv) \<in> set (take i ?evs)"
  proof (cases "find (\<lambda>p. project_id p = projectId dv) (projects sv)")
    case None
    with video_guarded [of dv sv env m eid] have "list_all (\<lambda>e. \<not> isUpload e) ?evs"
      by blast
    with i up show ?thesis
      by (simp add: list_all_length)
  next
    case (Some p)
    with video_guarded [of dv sv env m eid]
    have "guardedBy (CreateVideoFolder (project_name p) (playbackId dv)) False ?evs"
      by blast
    from guardedBy_index [OF this i up] Some show ?thesis
      by simp
  qed
qed

theorem folder_creation_precedes_uploads_witness:
  "isUpload (emitted freshForm (onSubmit (okApi 0) Create None scenarioDraft freshForm) ! 1)
   \<and> CreateProjectFolders (name scenarioDraft)
       \<in> set (take 1 (emitted freshForm (onSubmit (okApi 0) Create None scenarioDraft freshForm)))
   \<and> isUpload (emitted freshVideoForm
        (video_onSubmit (okApi 0) Edit (Some ''v7'') videoDraft freshVideoForm) ! 2)
   \<and> (\<exists>p. find (\<lambda>p. project_id p = projectId videoDraft) (projects freshVideoForm) = Some p
        \<and> CreateVideoFolder (project_name p) (playbackId videoDraft)
            \<in> set (take 2 (emitted freshVideoForm
                 (video_onSubmit (okApi 0) Edit (Some ''v7'') videoDraft freshVideoForm))))"
proof -
  let ?evs = "emitted freshForm (onSubmit (okApi 0) Create None scenarioDraft freshForm)"
  let ?evsv = "emitted freshVideoForm (video_onSubmit (okApi 0) Edit (Some ''v7'') videoDraft freshVideoForm)"
  have a: "1 < length ?evs" "isUpload (?evs ! 1)"
    by (simp_all add: scenario_run)
  have b: "2 < length ?evsv" "isUpload (?evsv ! 2)"
    by (simp_all add: video_run)
  from folder_creation_precedes_uploads
         [where s = freshForm and env = "okApi 0" and m = Create and eid = None and d = scenarioDraft]
       folder_creation_precedes_uploads
         [where sv = freshVideoForm and env = "okApi 0" and m = Edit and eid = "Some ''v7''"
            and dv = videoDraft]
       a b
  show ?thesis by blast
qed

section \<open>The payload\<close>

text \<open>
  C6: in every payload that the project form sends, with a create or an update call, a
  conditional URL whose flag is false has no value: \<open>careerPageUrl\<close> when \<open>isHiring\<close> is
  false, \<open>bountySubmissionUrl\<close> when \<open>isOpenForBounty\<close> is false, \<open>githubUrl\<close> when
  \<open>isOpenSource\<close> is false. The draft of the scenario passes validation and every
  create payload sent for it has none of the three URLs.
\<close>

theorem payload_omits_unflagged_urls:
  "(\<forall>pd. CreateProject pd \<in> set (emitted s (onSubmit env m eid d s))
          \<or> (\<exists>i. UpdateProject i pd \<in> set (emitted s (onSubmit env m eid d s))) \<longrightarrow>
        (\<not> isHiring d \<longrightarrow> pd_careerPageUrl pd = None)
      \<and> (\<not> isOpenForBounty d \<longrightarrow> pd_bountySubmissionUrl pd = None)
      \<and> (\<not> isOpenSource d \<longrightarrow> pd_githubUrl pd = None))
   \<and> Validate isUrl scenarioDraft
   \<and> (\<forall>pd. CreateProject pd \<in> set (emitted s (onSubmit env Create eid scenarioDraft s)) \<longrightarrow>
        pd_careerPageUrl pd = None \<and> pd_bountySubmissionUrl pd = None \<and> pd_githubUrl pd = None)"
proof (intro conjI allI impI)
  fix pd
  assume "CreateProject pd \<in> set (emitted s (onSubmit env m eid d s))
          \<or> (\<exists>i. UpdateProject i pd \<in> set (emitted s (onSubmit env m eid d s)))"
  then have pd: "pd \<in> range (mkProjectData d)"
    using project_payload [of pd s env m eid d] by blast
  { assume "\<not> isHiring d"
    with pd show "pd_careerPageUrl pd = None" by (auto simp add: mkProjectData_def) }
  { assume "\<not> isOpenForBounty d"
    with pd show "pd_bountySubmissionUrl pd = None" by (auto simp add: mkProjectData_def) }
  { assume "\<not> isOpenSource d"
    with pd show "pd_githubUrl pd = None" by (auto simp add: mkProjectData_def) }
next
  show "Validate isUrl scenarioDraft"
    by (rule scenarioDraft_valid)
next
  fix pd
  assume "CreateProject pd \<in> set (emitted s (onSubmit env Create eid scenarioDraft s))"
  then have pd: "pd \<in> range (mkProjectData scenarioDraft)"
    using project_payload [of pd s env Create eid scenarioDraft] by blast
  from pd show "pd_careerPageUrl pd = None"
    by (auto simp add: mkProjectData_def scenarioDraft_def)
  from pd show "pd_bountySubmissionUrl pd = None"
    by (auto simp add: mkProjectData_def scenarioDraft_def)
  from pd show "pd_githubUrl pd = None"
    by (auto simp add: mkProjectData_def scenarioDraft_def)
qed

theorem payload_omits_unflagged_urls_witness:
  "(\<exists>pd. CreateProject pd \<in> set (emitted freshForm (onSubmit (okApi 0) Create None scenarioDraft freshForm))
      \<and> pd_careerPageUrl pd = None \<and> pd_bountySubmissionUrl pd = None \<and> pd_githubUrl pd = None
      \<and> pd_logo pd = Some ''https://cdn/logo'')
   \<and> Validate httpsUrl scenarioDraft"
proof -
  let ?pd = "mkProjectData scenarioDraft
         \<lparr>up_logo = Some ''https://cdn/logo'', up_heroImage = None, up_projectImages = None\<rparr>"
  have a: "CreateProject ?pd \<in> set (emitted freshForm (onSubmit (okApi 0) Create None scenarioDraft freshForm))"
    by (simp add: scenario_run)
  have b: "pd_logo ?pd = Some ''https://cdn/logo''"
    by (simp add: mkProjectData_def)
  from payload_omits_unflagged_urls
         [where s = freshForm and env = "okApi 0" and m = Create and eid = None
            and d = scenarioDraft and isUrl = httpsUrl] a b
  show ?thesis by blast
qed


section \<open>Create, update and navigation\<close>




section \<open>The loading flag\<close>

text \<open>
  C8: after every run of a submit handler, of the project form or of the video form,
  whether it succeeds, is rejected by the cap or throws at any step, the loading flag is
  false, so the submit control is enabled again.
\<close>

theorem loading_false_after_submit:
  "loading (onSubmit env m eid d s) = False \<and> loading (video_onSubmit env m eid dv sv) = False"
  by (simp add: onSubmit_def video_onSubmit_def setLoading_def split: prod.splits sum.splits)

section \<open>A failed count query\<close>



section \<open>Loading a project for editing\<close>

lemma fetchProject_flags:
  "eid = Some i \<Longrightarrow> i \<noteq> [] \<Longrightarrow> getProject env i = Inr p \<Longrightarrow>
     \<not> isHiring (formValues (fetchProject env eid s))
   \<and> \<not> isOpenForBounty (formValues (fetchProject env eid s))
   \<and> \<not> isOpenSource (formValues (fetchProject env eid s))"
  by (simp add: fetchProject_def andThen_def perform_def await_def populate_def Let_def
        setLoading_def emit_def flagSetValueAs_def)

text \<open>
  C10: \<open>fetchProject\<close> is meant to set each flag of the draft to the disjunction of the
  stored flag and the non-emptiness of the stored URL of its pair, so that a stored
  project whose flag is false and whose URL is non-empty is loaded with the flag true.
  The handler computes that disjunction and hands it to \<open>setValue\<close>, but the value is
  stored through the \<open>setValueAs\<close> of the select, which gives false for a boolean. For
  the stored project below the hiring disjunction is true by its URL and the
  open-source flag is stored true, and the draft is loaded with all three flags false.
\<close>

theorem fetchProject_loads_flags_false:
  "(project_isHiring storedProject \<or> truthy (project_careerPageUrl storedProject))
   \<and> project_careerPageUrl storedProject = Some ''https://foo.io/jobs''
   \<and> project_isOpenSource storedProject
   \<and> \<not> isHiring (formValues (fetchProject (okApi 0) (Some ''p1'') freshForm))
   \<and> \<not> isOpenForBounty (formValues (fetchProject (okApi 0) (Some ''p1'') freshForm))
   \<and> \<not> isOpenSource (formValues (fetchProject (okApi 0) (Some ''p1'') freshForm))"
proof -
  have a: "getProject (okApi 0) ''p1'' = Inr storedProject"
    by (simp add: okApi_def)
  have b: "(project_isHiring storedProject \<or> truthy (project_careerPageUrl storedProject))
     \<and> project_careerPageUrl storedProject = Some ''https://foo.io/jobs''
     \<and> project_isOpenSource storedProject"
    by (simp add: storedProject_def truthy_def)
  have c: "''p1'' \<noteq> []"
    by simp
  from fetchProject_flags [OF refl c a, of freshForm] b show ?thesis
    by blast
qed

end
